theory Spec2Isabelle
  imports Complex_Main
begin

section \<open>CarEngineSim: the engine and gearbox models\<close>

text \<open>
  A shallow embedding of \<^verbatim>\<open>Engine.py\<close> and \<^verbatim>\<open>Gearbox.py\<close>.

  Numbers. Python's \<^verbatim>\<open>int\<close> is \<^typ>\<open>int\<close>. Python's \<^verbatim>\<open>float\<close> is modelled by
  \<^typ>\<open>real\<close>: every arithmetic operation is the exact one, with no rounding, no
  overflow, no infinities and no NaN. The field \<^verbatim>\<open>current_rpm\<close> is annotated
  \<^verbatim>\<open>int\<close> in the constructor but \<^verbatim>\<open>update_rpm\<close> stores floats in it, so it is a
  \<^typ>\<open>real\<close> here. The fields the constructor annotates \<^verbatim>\<open>int\<close> and that no
  method assigns are \<^typ>\<open>int\<close>.

  Exceptions. A method returns a pair: what the call produced (\<open>Inl\<close> the exception
  raised, \<open>Inr\<close> the value returned) and the object as the call left it, since the
  assignments made before a \<^verbatim>\<open>raise\<close> stay in the object.

  Time. \<^verbatim>\<open>datetime.datetime.now()\<close> is a parameter of \<^verbatim>\<open>update_rpm\<close>: the clock
  reading of that call, in microseconds (the resolution of \<^verbatim>\<open>datetime\<close>).
\<close>

datatype py_error = TypeError | ZeroDivisionError | ValueError | IndexError

subsection \<open>Engine.py\<close>

record engine =
  name :: string
  manufacturer :: string
  description :: string
  cylinders :: int
  displacement :: int
  cylinder_bore :: real
  piston_stroke :: real
  compression_ratio :: real
  max_rpm :: int
  max_horsepower :: int
  max_kw :: int
  max_torque_nm :: int
  RON :: int
  ECS :: string
  peak_torque_rpm :: int
  peak_hp_rpm :: int
  clutch_response_time :: int
  current_hp :: real
  current_torque_nm :: real
  current_rpm :: real
  throttle :: real
  throttle_decay_rate :: real
  increase_rate :: real
  base_increase_rate :: real
  current_gear_ratio :: "real option"
  clutched :: bool
  clutched_timestamp :: "int option"

text \<open>\<^verbatim>\<open>Engine.__init__\<close>: seventeen assignments of the arguments and ten of
  constants; no check and no \<^verbatim>\<open>raise\<close>.\<close>

definition Engine_init ::
  "string \<Rightarrow> string \<Rightarrow> string \<Rightarrow> int \<Rightarrow> int \<Rightarrow> real \<Rightarrow> real \<Rightarrow> real \<Rightarrow> int \<Rightarrow> int \<Rightarrow> int \<Rightarrow>
   int \<Rightarrow> int \<Rightarrow> string \<Rightarrow> int \<Rightarrow> int \<Rightarrow> int \<Rightarrow> engine" where
  "Engine_init nm manu descr cyl displ bore stroke compr mrpm mhp mkw mtorque ron ecs
     ptrpm phrpm crt =
   \<lparr> name = nm, manufacturer = manu, description = descr,
     cylinders = cyl, displacement = displ, cylinder_bore = bore,
     piston_stroke = stroke, compression_ratio = compr,
     max_rpm = mrpm, max_horsepower = mhp, max_kw = mkw, max_torque_nm = mtorque,
     RON = ron, ECS = ecs, peak_torque_rpm = ptrpm, peak_hp_rpm = phrpm,
     clutch_response_time = crt,
     current_hp = 0, current_torque_nm = 0, current_rpm = 700,
     throttle = 0, throttle_decay_rate = 0.02,
     increase_rate = 0, base_increase_rate = 0.03,
     current_gear_ratio = None, clutched = False, clutched_timestamp = None \<rparr>"

definition calculate_increase_rate :: "real \<Rightarrow> engine \<Rightarrow> engine" where
  "calculate_increase_rate gear_ratio s =
     s\<lparr> current_gear_ratio := Some gear_ratio,
        increase_rate := base_increase_rate s * gear_ratio / 2 \<rparr>"

text \<open>\<^verbatim>\<open>calculate_current_hp\<close>: the only division is by the constant 5252, so the call
  always returns; the result is the value returned and the object.\<close>

definition calculate_current_hp :: "engine \<Rightarrow> real \<times> engine" where
  "calculate_current_hp s =
     (if current_rpm s = 0 then (0, s)
      else
        (let current_torque_ft_lb = current_torque_nm s * 0.737562;
             s1 = s\<lparr> current_hp := (current_torque_ft_lb * current_rpm s) / 5252 \<rparr>;
             s2 = (if current_hp s1 > real_of_int (max_horsepower s1)
                   then s1\<lparr> current_hp := real_of_int (max_horsepower s1) \<rparr> else s1)
         in (current_hp s2, s2)))"

text \<open>\<^verbatim>\<open>calculate_current_torque\<close>: the two divisions raise
  \<^verbatim>\<open>ZeroDivisionError\<close> on a zero divisor, before anything is assigned.\<close>

definition floor_torque :: "engine \<Rightarrow> (py_error + real) \<times> engine" where
  "floor_torque s =
     (let min_torque = real_of_int (max_torque_nm s) * 0.3;
          s1 = s\<lparr> current_torque_nm := max (current_torque_nm s) min_torque \<rparr>
      in (Inr (current_torque_nm s1), s1))"

definition calculate_current_torque :: "engine \<Rightarrow> (py_error + real) \<times> engine" where
  "calculate_current_torque s =
     (if current_rpm s = 0 then (Inr 0, s)
      else if current_rpm s \<le> real_of_int (peak_torque_rpm s) then
        (if peak_torque_rpm s = 0 then (Inl ZeroDivisionError, s)
         else floor_torque
                (s\<lparr> current_torque_nm :=
                      real_of_int (max_torque_nm s)
                        * (current_rpm s / real_of_int (peak_torque_rpm s)) \<rparr>))
      else
        (let rpm_range = max_rpm s - peak_torque_rpm s;
             rpm_post_peak = current_rpm s - real_of_int (peak_torque_rpm s)
         in if rpm_range = 0 then (Inl ZeroDivisionError, s)
            else
              (let decrease_factor = 1 - (rpm_post_peak / real_of_int rpm_range) ^ 2
               in floor_torque
                    (s\<lparr> current_torque_nm :=
                          real_of_int (max_torque_nm s) * decrease_factor \<rparr>))))"

text \<open>\<^verbatim>\<open>int(x)\<close> on a float truncates toward zero.\<close>

definition py_int :: "real \<Rightarrow> int" where
  "py_int x = (if 0 \<le> x then \<lfloor>x\<rfloor> else \<lceil>x\<rceil>)"

text \<open>\<^verbatim>\<open>update_rpm\<close>, lines 69 to 77: the clutch and its timestamp. \<open>now\<close> is the
  clock reading of this call; \<^verbatim>\<open>timedelta(milliseconds=t)\<close> is \<open>1000 * t\<close>
  microseconds.\<close>

definition clutch_dwell :: "int \<Rightarrow> engine \<Rightarrow> engine" where
  "clutch_dwell now s =
     (if clutched s then
        (let s1 = s\<lparr> throttle := 0 \<rparr> in
         case clutched_timestamp s1 of
           None \<Rightarrow> s1\<lparr> clutched_timestamp := Some now \<rparr>
         | Some t0 \<Rightarrow>
             if now - t0 > 1000 * clutch_response_time s1
             then s1\<lparr> clutched := False, clutched_timestamp := None \<rparr>
             else s1)
      else s)"

text \<open>Lines 82 to 103: the step toward the target, up or down. The division by
  \<^verbatim>\<open>max_rpm\<close> raises when \<^verbatim>\<open>max_rpm\<close> is 0.\<close>

definition adjust_rpm :: "int \<Rightarrow> engine \<Rightarrow> (py_error + unit) \<times> engine" where
  "adjust_rpm target_rpm s =
     (if real_of_int target_rpm > current_rpm s then
        (if current_rpm s < real_of_int target_rpm then
           (let increase = (real_of_int target_rpm - current_rpm s) * increase_rate s
            in if max_rpm s = 0 then (Inl ZeroDivisionError, s)
               else
                 (let decay_factor = 1 - (current_rpm s / real_of_int (max_rpm s)) ^ 2;
                      s1 = s\<lparr> current_rpm := current_rpm s + increase * decay_factor \<rparr>
                  in (Inr (),
                      if current_rpm s1 > real_of_int target_rpm
                      then s1\<lparr> current_rpm := real_of_int target_rpm \<rparr> else s1)))
         else (Inr (), s))
      else
        (if current_rpm s > 700 then
           (let decay_rate =
                  (if \<not> clutched s
                   then (current_rpm s - real_of_int target_rpm) * increase_rate s / 10
                   else (current_rpm s - real_of_int target_rpm) * increase_rate s);
                s1 = s\<lparr> current_rpm := current_rpm s - decay_rate \<rparr>
            in (Inr (), if current_rpm s1 < 700 then s1\<lparr> current_rpm := 700 \<rparr> else s1))
         else (Inr (), s)))"

text \<open>Lines 105 to 107: the final bound.\<close>

definition clamp_max :: "engine \<Rightarrow> engine" where
  "clamp_max s =
     (if current_rpm s > real_of_int (max_rpm s)
      then s\<lparr> current_rpm := real_of_int (max_rpm s) \<rparr> else s)"

text \<open>Lines 109 to 111: torque, then horsepower.\<close>

definition update_hp_torque :: "engine \<Rightarrow> (py_error + unit) \<times> engine" where
  "update_hp_torque s =
     (case calculate_current_torque s of
        (Inl e, s1) \<Rightarrow> (Inl e, s1)
      | (Inr _, s1) \<Rightarrow> (Inr (), snd (calculate_current_hp s1)))"

text \<open>\<^verbatim>\<open>update_rpm\<close>. With \<^verbatim>\<open>current_gear_ratio\<close> still \<^verbatim>\<open>None\<close> the product on
  line 80 raises \<^verbatim>\<open>TypeError\<close>, after the clutch lines have run.\<close>

definition update_rpm :: "int \<Rightarrow> engine \<Rightarrow> (py_error + unit) \<times> engine" where
  "update_rpm now s =
     (let s1 = clutch_dwell now s in
      case current_gear_ratio s1 of
        None \<Rightarrow> (Inl TypeError, s1)
      | Some ratio \<Rightarrow>
          (let target_rpm = py_int (real_of_int (max_rpm s1) * throttle s1 * ratio) in
           case adjust_rpm target_rpm s1 of
             (Inl e, s2) \<Rightarrow> (Inl e, s2)
           | (Inr _, s2) \<Rightarrow> update_hp_torque (clamp_max s2)))"


text \<open>The value lines 82 to 103 leave in \<^verbatim>\<open>current_rpm\<close>, as a function of the
  numbers they read: the clutch flag, \<^verbatim>\<open>max_rpm\<close>, \<^verbatim>\<open>increase_rate\<close>, the target
  and the current value. The proofs use it for \<open>adjust_rpm\<close>.\<close>

definition adjusted_rpm :: "bool \<Rightarrow> real \<Rightarrow> real \<Rightarrow> real \<Rightarrow> real \<Rightarrow> real" where
  "adjusted_rpm flag m rate target c =
     (if target > c then
        (let c1 = c + (target - c) * rate * (1 - (c / m) ^ 2)
         in if c1 > target then target else c1)
      else if c > 700 then
        (let c1 = c - (if \<not> flag then (c - target) * rate / 10 else (c - target) * rate)
         in if c1 < 700 then 700 else c1)
      else c)"



text \<open>The torque \<^verbatim>\<open>calculate_current_torque\<close> stores when \<^verbatim>\<open>current_rpm\<close> is not 0
  and no division fails, and the condition under which one of its divisions fails.\<close>

definition torque_curve :: "engine \<Rightarrow> real" where
  "torque_curve s =
     max (if current_rpm s \<le> real_of_int (peak_torque_rpm s)
          then real_of_int (max_torque_nm s) * (current_rpm s / real_of_int (peak_torque_rpm s))
          else real_of_int (max_torque_nm s)
                 * (1 - ((current_rpm s - real_of_int (peak_torque_rpm s))
                          / real_of_int (max_rpm s - peak_torque_rpm s)) ^ 2))
         (real_of_int (max_torque_nm s) * 0.3)"

definition torque_raises :: "engine \<Rightarrow> bool" where
  "torque_raises s \<longleftrightarrow>
     current_rpm s \<noteq> 0
     \<and> (if current_rpm s \<le> real_of_int (peak_torque_rpm s)
         then peak_torque_rpm s = 0 else max_rpm s = peak_torque_rpm s)"

text \<open>The engine \<^verbatim>\<open>main.py\<close> builds (a Toyota Yaris), in first gear. \<^verbatim>\<open>main.py\<close>
  passes sixteen arguments and leaves \<^verbatim>\<open>clutch_response_time\<close> out; it is 1000 here,
  the second that the comment on line 74 speaks of.\<close>

definition yaris :: engine where
  "yaris = calculate_increase_rate 3.545
     (Engine_init ''M15A-FXE'' ''Toyota'' ''3 Cylinder Engine'' 3 1490 80.5 97.6 14.0
        5500 91 67 120 91 ''EFI'' 4800 5500 1000)"

subsection \<open>Gearbox.py\<close>

text \<open>\<^verbatim>\<open>str.split(sep)\<close> with a one-character separator: one more piece than there
  are separators.\<close>

fun split_on :: "char \<Rightarrow> string \<Rightarrow> string list" where
  "split_on c [] = [[]]"
| "split_on c (x # xs) =
     (if x = c then [] # split_on c xs
      else (case split_on c xs of
              [] \<Rightarrow> [[x]]
            | p # ps \<Rightarrow> (x # p) # ps))"

text \<open>\<^verbatim>\<open>int(s)\<close> on a string, for ASCII text: white space is stripped at both ends,
  one sign may lead, then decimal digits, where a single underscore may stand between
  two digits. Anything else raises \<^verbatim>\<open>ValueError\<close> (\<open>None\<close> here). Python also reads
  the decimal digits and spaces of other scripts; a \<^typ>\<open>char\<close> is a byte, so those are
  outside this model, as is the limit on the number of digits.\<close>

definition is_space :: "char \<Rightarrow> bool" where
  "is_space c =
     (of_char c \<in> {9, 10, 11, 12, 13, 28, 29, 30, 31, 32 :: nat})"

definition is_digit :: "char \<Rightarrow> bool" where
  "is_digit c = (48 \<le> (of_char c :: nat) \<and> (of_char c :: nat) \<le> 57)"

definition strip :: "string \<Rightarrow> string" where
  "strip s = rev (dropWhile is_space (rev (dropWhile is_space s)))"

fun digits_value :: "bool \<Rightarrow> int \<Rightarrow> string \<Rightarrow> int option" where
  "digits_value after_digit acc [] = (if after_digit then Some acc else None)"
| "digits_value after_digit acc (c # cs) =
     (if is_digit c then digits_value True (acc * 10 + (of_char c - 48)) cs
      else if c = CHR ''_'' \<and> after_digit then digits_value False acc cs
      else None)"

definition int_of_str :: "string \<Rightarrow> int option" where
  "int_of_str s =
     (case strip s of
        [] \<Rightarrow> None
      | c # cs \<Rightarrow>
          if c = CHR ''-'' then map_option uminus (digits_value False 0 cs)
          else if c = CHR ''+'' then digits_value False 0 cs
          else digits_value False 0 (c # cs))"

text \<open>\<^verbatim>\<open>get_wheel_radius\<close>. Unpacking a split into two names raises
  \<^verbatim>\<open>ValueError\<close> unless there are exactly two pieces; each failure inside the
  \<^verbatim>\<open>try\<close> is a \<^verbatim>\<open>ValueError\<close>, raised again as a \<^verbatim>\<open>ValueError\<close> with the format
  message. The two sidewall values are computed and dropped.\<close>

definition get_wheel_radius :: "string \<Rightarrow> py_error + real" where
  "get_wheel_radius tire_size =
     (case split_on CHR ''/'' tire_size of
        [width_str, aspect_ratio_and_diameter] \<Rightarrow>
          (case split_on CHR ''R'' aspect_ratio_and_diameter of
             [aspect_ratio_str, diameter_str] \<Rightarrow>
               (case int_of_str width_str of
                  None \<Rightarrow> Inl ValueError
                | Some width \<Rightarrow>
                    (case int_of_str aspect_ratio_str of
                       None \<Rightarrow> Inl ValueError
                     | Some aspect_ratio \<Rightarrow>
                         (case int_of_str diameter_str of
                            None \<Rightarrow> Inl ValueError
                          | Some diameter \<Rightarrow>
                              (let sidewall_height_mm =
                                     real_of_int (width * aspect_ratio) / 100;
                                   sidewall_height_m = sidewall_height_mm / 1000;
                                   wheel_radius_m = (real_of_int diameter * 25.4 / 2) / 1000
                               in Inr wheel_radius_m))))
           | _ \<Rightarrow> Inl ValueError)
      | _ \<Rightarrow> Inl ValueError)"

record gearbox =
  gear_ratios :: "real list"
  current_gear :: int
  tire_radius_meters :: real
  final_drive_ratio :: real

text \<open>\<^verbatim>\<open>Gearbox.__init__\<close>: the only failure is the one of \<^verbatim>\<open>get_wheel_radius\<close>.\<close>

definition Gearbox_init :: "real list \<Rightarrow> string \<Rightarrow> real \<Rightarrow> py_error + gearbox" where
  "Gearbox_init ratios tire_size fdr =
     (case get_wheel_radius tire_size of
        Inl e \<Rightarrow> Inl e
      | Inr r \<Rightarrow>
          Inr \<lparr> gear_ratios = ratios, current_gear = 1,
                tire_radius_meters = r, final_drive_ratio = fdr \<rparr>)"

definition shift_up :: "gearbox \<Rightarrow> gearbox" where
  "shift_up g =
     (if current_gear g < int (length (gear_ratios g))
      then g\<lparr> current_gear := current_gear g + 1 \<rparr> else g)"

definition shift_down :: "gearbox \<Rightarrow> gearbox" where
  "shift_down g =
     (if current_gear g > 1 then g\<lparr> current_gear := current_gear g - 1 \<rparr> else g)"

text \<open>A list read at an index: a negative index counts from the end, and an index
  outside the list raises \<^verbatim>\<open>IndexError\<close>.\<close>

definition py_index :: "'a list \<Rightarrow> int \<Rightarrow> py_error + 'a" where
  "py_index xs i =
     (if 0 \<le> i \<and> i < int (length xs) then Inr (xs ! nat i)
      else if i < 0 \<and> - int (length xs) \<le> i then Inr (xs ! nat (int (length xs) + i))
      else Inl IndexError)"

definition get_current_ratio :: "gearbox \<Rightarrow> py_error + real" where
  "get_current_ratio g = py_index (gear_ratios g) (current_gear g - 1)"

text \<open>\<^verbatim>\<open>get_speed\<close> assigns to no field: it is a function of the gearbox and the
  argument. The division raises on a zero divisor.\<close>

definition get_speed :: "gearbox \<Rightarrow> real \<Rightarrow> py_error + real" where
  "get_speed g engine_rpm =
     (case py_index (gear_ratios g) (current_gear g - 1) of
        Inl e \<Rightarrow> Inl e
      | Inr gear_ratio \<Rightarrow>
          if final_drive_ratio g * gear_ratio * 1000 = 0 then Inl ZeroDivisionError
          else Inr ((engine_rpm * tire_radius_meters g * 2 * 3.14159 * 60)
                      / (final_drive_ratio g * gear_ratio * 1000)))"

text \<open>The key events of \<^verbatim>\<open>main.py\<close>, as far as the gearbox goes.\<close>

datatype shift = Up | Down

fun apply_shift :: "shift \<Rightarrow> gearbox \<Rightarrow> gearbox" where
  "apply_shift Up g = shift_up g"
| "apply_shift Down g = shift_down g"

fun apply_shifts :: "shift list \<Rightarrow> gearbox \<Rightarrow> gearbox" where
  "apply_shifts [] g = g"
| "apply_shifts (k # ks) g = apply_shifts ks (apply_shift k g)"

text \<open>The gearbox \<^verbatim>\<open>main.py\<close> builds, as the constructor leaves it.\<close>

definition yaris_gearbox :: gearbox where
  "yaris_gearbox =
     \<lparr> gear_ratios = [3.545, 1.913, 1.310, 1.027, 0.850], current_gear = 1,
       tire_radius_meters = 0.2032, final_drive_ratio = 4.294 \<rparr>"

section \<open>The example engine\<close>

lemma yaris_fields:
  "max_rpm yaris = 5500" "peak_torque_rpm yaris = 4800" "max_torque_nm yaris = 120"
  "max_horsepower yaris = 91" "current_rpm yaris = 700" "current_torque_nm yaris = 0"
  "current_hp yaris = 0" "throttle yaris = 0" "increase_rate yaris = 0.053175"
  "base_increase_rate yaris = 0.03" "current_gear_ratio yaris = Some 3.545"
  "clutched yaris = False" "clutched_timestamp yaris = None"
  "clutch_response_time yaris = 1000"
  by (simp_all add: yaris_def Engine_init_def calculate_increase_rate_def)

section \<open>Horsepower\<close>

lemma calculate_current_hp_zero:
  "current_rpm s = 0 \<Longrightarrow> calculate_current_hp s = (0, s)"
  by (simp add: calculate_current_hp_def)

lemma calculate_current_hp_nonzero:
  assumes "current_rpm s \<noteq> 0"
  shows "calculate_current_hp s =
           (min (current_torque_nm s * 0.737562 * current_rpm s / 5252)
                (real_of_int (max_horsepower s)),
            s\<lparr> current_hp := min (current_torque_nm s * 0.737562 * current_rpm s / 5252)
                                 (real_of_int (max_horsepower s)) \<rparr>)"
  using assms by (simp add: calculate_current_hp_def Let_def min_def)

text \<open>
  C4. With \<open>current_rpm > 0\<close>, \<^verbatim>\<open>calculate_current_hp\<close> stores and returns
  \<open>(current_torque_nm * 0.737562) * current_rpm / 5252\<close> clamped above at
  \<open>max_horsepower\<close>, so the value never exceeds \<open>max_horsepower\<close>, and it changes no
  other field; with \<open>current_rpm = 0\<close> it returns 0 and leaves the object as it was.
\<close>

theorem calculate_current_hp_spec:
  "(0 < current_rpm s \<longrightarrow>
      (let hp = min ((current_torque_nm s * 0.737562) * current_rpm s / 5252)
                    (real_of_int (max_horsepower s))
       in calculate_current_hp s = (hp, s\<lparr> current_hp := hp \<rparr>)
          \<and> fst (calculate_current_hp s) \<le> real_of_int (max_horsepower s)))
   \<and> (current_rpm s = 0 \<longrightarrow> calculate_current_hp s = (0, s))"
  by (simp add: calculate_current_hp_zero calculate_current_hp_nonzero Let_def)

theorem calculate_current_hp_spec_witness:
  "0 < current_rpm (yaris\<lparr> current_torque_nm := 36 \<rparr>)
   \<and> fst (calculate_current_hp (yaris\<lparr> current_torque_nm := 36 \<rparr>)) = 4646640600 / 1313000000
   \<and> fst (calculate_current_hp (yaris\<lparr> current_torque_nm := 36 \<rparr>)) \<le> 91
   \<and> current_rpm (yaris\<lparr> current_rpm := 0 \<rparr>) = 0
   \<and> calculate_current_hp (yaris\<lparr> current_rpm := 0 \<rparr>) = (0, yaris\<lparr> current_rpm := 0 \<rparr>)"
  using calculate_current_hp_spec [of "yaris\<lparr> current_torque_nm := 36 \<rparr>"]
        calculate_current_hp_spec [of "yaris\<lparr> current_rpm := 0 \<rparr>"]
  by (simp add: yaris_fields Let_def)

section \<open>Torque\<close>

lemma floor_torque_eq:
  "floor_torque s =
     (Inr (max (current_torque_nm s) (0.3 * real_of_int (max_torque_nm s))),
      s\<lparr> current_torque_nm := max (current_torque_nm s) (0.3 * real_of_int (max_torque_nm s)) \<rparr>)"
  by (simp add: floor_torque_def Let_def mult.commute)

lemma calculate_current_torque_zero:
  "current_rpm s = 0 \<Longrightarrow> calculate_current_torque s = (Inr 0, s)"
  by (simp add: calculate_current_torque_def)

lemma calculate_current_torque_ramp:
  assumes "current_rpm s \<noteq> 0" "current_rpm s \<le> real_of_int (peak_torque_rpm s)"
    "peak_torque_rpm s \<noteq> 0"
  shows "calculate_current_torque s =
     (let t = max (real_of_int (max_torque_nm s) * (current_rpm s / real_of_int (peak_torque_rpm s)))
                  (0.3 * real_of_int (max_torque_nm s))
      in (Inr t, s\<lparr> current_torque_nm := t \<rparr>))"
  using assms by (simp add: calculate_current_torque_def floor_torque_eq Let_def)

lemma calculate_current_torque_falloff:
  assumes "current_rpm s \<noteq> 0" "\<not> current_rpm s \<le> real_of_int (peak_torque_rpm s)"
    "max_rpm s \<noteq> peak_torque_rpm s"
  shows "calculate_current_torque s =
     (let t = max (real_of_int (max_torque_nm s)
                     * (1 - ((current_rpm s - real_of_int (peak_torque_rpm s))
                              / (real_of_int (max_rpm s) - real_of_int (peak_torque_rpm s))) ^ 2))
                  (0.3 * real_of_int (max_torque_nm s))
      in (Inr t, s\<lparr> current_torque_nm := t \<rparr>))"
  using assms by (simp add: calculate_current_torque_def floor_torque_eq Let_def)

text \<open>
  C3. With \<open>0 < current_rpm \<le> max_rpm\<close> and \<open>0 < peak_torque_rpm < max_rpm\<close>,
  \<^verbatim>\<open>calculate_current_torque\<close> returns and stores the torque curve floored at 30% of
  \<open>max_torque\<close>: the curve is \<open>max_torque * (rpm / peak_torque_rpm)\<close> up to the peak
  and \<open>max_torque * (1 - ((rpm - peak_torque_rpm) / (max_rpm - peak_torque_rpm))\<^sup>2)\<close>
  beyond it, and the result is never below \<open>0.30 * max_torque\<close>. With
  \<open>current_rpm = 0\<close> it returns 0 and leaves the object as it was.
\<close>

theorem calculate_current_torque_spec:
  "(0 < current_rpm s \<and> current_rpm s \<le> real_of_int (max_rpm s)
      \<and> 0 < peak_torque_rpm s \<and> peak_torque_rpm s < max_rpm s \<longrightarrow>
      (let curve =
             (if current_rpm s \<le> real_of_int (peak_torque_rpm s)
              then real_of_int (max_torque_nm s)
                     * (current_rpm s / real_of_int (peak_torque_rpm s))
              else real_of_int (max_torque_nm s)
                     * (1 - ((current_rpm s - real_of_int (peak_torque_rpm s))
                              / (real_of_int (max_rpm s) - real_of_int (peak_torque_rpm s))) ^ 2));
           t = max curve (0.30 * real_of_int (max_torque_nm s))
       in calculate_current_torque s = (Inr t, s\<lparr> current_torque_nm := t \<rparr>)
          \<and> 0.30 * real_of_int (max_torque_nm s) \<le> t))
   \<and> (current_rpm s = 0 \<longrightarrow> calculate_current_torque s = (Inr 0, s))"
proof (intro conjI impI)
  assume h: "0 < current_rpm s \<and> current_rpm s \<le> real_of_int (max_rpm s)
      \<and> 0 < peak_torque_rpm s \<and> peak_torque_rpm s < max_rpm s"
  show "let curve =
             (if current_rpm s \<le> real_of_int (peak_torque_rpm s)
              then real_of_int (max_torque_nm s)
                     * (current_rpm s / real_of_int (peak_torque_rpm s))
              else real_of_int (max_torque_nm s)
                     * (1 - ((current_rpm s - real_of_int (peak_torque_rpm s))
                              / (real_of_int (max_rpm s) - real_of_int (peak_torque_rpm s))) ^ 2));
           t = max curve (0.30 * real_of_int (max_torque_nm s))
       in calculate_current_torque s = (Inr t, s\<lparr> current_torque_nm := t \<rparr>)
          \<and> 0.30 * real_of_int (max_torque_nm s) \<le> t"
  proof (cases "current_rpm s \<le> real_of_int (peak_torque_rpm s)")
    case True
    with h show ?thesis
      unfolding Let_def using calculate_current_torque_ramp [of s]
      by (intro conjI max.cobounded2) (simp add: Let_def)
  next
    case False
    with h show ?thesis
      unfolding Let_def using calculate_current_torque_falloff [of s]
      by (intro conjI max.cobounded2) (simp add: Let_def)
  qed
next
  assume "current_rpm s = 0"
  then show "calculate_current_torque s = (Inr 0, s)"
    by (rule calculate_current_torque_zero)
qed

theorem calculate_current_torque_spec_witness:
  "0 < current_rpm yaris \<and> current_rpm yaris \<le> real_of_int (max_rpm yaris)
   \<and> 0 < peak_torque_rpm yaris \<and> peak_torque_rpm yaris < max_rpm yaris
   \<and> calculate_current_torque yaris = (Inr 36, yaris\<lparr> current_torque_nm := 36 \<rparr>)
   \<and> calculate_current_torque (yaris\<lparr> current_rpm := 5000 \<rparr>)
       = (Inr (5400 / 49), yaris\<lparr> current_rpm := 5000, current_torque_nm := 5400 / 49 \<rparr>)
   \<and> current_rpm (yaris\<lparr> current_rpm := 0 \<rparr>) = 0
   \<and> calculate_current_torque (yaris\<lparr> current_rpm := 0 \<rparr>) = (Inr 0, yaris\<lparr> current_rpm := 0 \<rparr>)"
  using calculate_current_torque_spec [of yaris]
        calculate_current_torque_spec [of "yaris\<lparr> current_rpm := 5000 \<rparr>"]
        calculate_current_torque_spec [of "yaris\<lparr> current_rpm := 0 \<rparr>"]
  by (simp add: yaris_fields Let_def power2_eq_square)

section \<open>The tire-size descriptor\<close>











section \<open>Gear shifts\<close>

lemma shift_up_ratios: "gear_ratios (shift_up g) = gear_ratios g"
  by (simp add: shift_up_def)

lemma shift_down_ratios: "gear_ratios (shift_down g) = gear_ratios g"
  by (simp add: shift_down_def)

lemma apply_shift_ratios: "gear_ratios (apply_shift k g) = gear_ratios g"
  by (cases k) (simp_all add: shift_up_ratios shift_down_ratios)

lemma apply_shift_in_range:
  assumes "1 \<le> current_gear g" "current_gear g \<le> int (length (gear_ratios g))"
  shows "1 \<le> current_gear (apply_shift k g)
         \<and> current_gear (apply_shift k g) \<le> int (length (gear_ratios g))"
  using assms by (cases k) (auto simp: shift_up_def shift_down_def)

lemma apply_shifts_in_range:
  assumes "1 \<le> current_gear g" "current_gear g \<le> int (length (gear_ratios g))"
  shows "gear_ratios (apply_shifts ks g) = gear_ratios g
         \<and> 1 \<le> current_gear (apply_shifts ks g)
         \<and> current_gear (apply_shifts ks g) \<le> int (length (gear_ratios g))"
  using assms
proof (induction ks arbitrary: g)
  case Nil
  then show ?case by simp
next
  case (Cons k ks)
  have "1 \<le> current_gear (apply_shift k g)"
    and "current_gear (apply_shift k g) \<le> int (length (gear_ratios (apply_shift k g)))"
    using apply_shift_in_range [OF Cons.prems, of k] by (simp_all add: apply_shift_ratios)
  from Cons.IH [OF this] show ?case
    by (simp add: apply_shift_ratios)
qed

text \<open>
  C7. For a gearbox with a non-empty ratio list: \<^verbatim>\<open>shift_down\<close> changes nothing in
  gear 1 and \<^verbatim>\<open>shift_up\<close> changes nothing in the top gear; in any other gear within
  \<open>[1, len(gear_ratios)]\<close> they subtract and add exactly 1; and from gear 1 every
  sequence of shifts leaves \<open>current_gear\<close> within \<open>[1, len(gear_ratios)]\<close>.
\<close>

theorem shift_bounds:
  assumes "gear_ratios g \<noteq> []"
  shows "(current_gear g = 1 \<longrightarrow> shift_down g = g)
       \<and> (current_gear g = int (length (gear_ratios g)) \<longrightarrow> shift_up g = g)
       \<and> (1 \<le> current_gear g \<and> current_gear g \<le> int (length (gear_ratios g)) \<longrightarrow>
            (current_gear g \<noteq> 1 \<longrightarrow>
               shift_down g = g\<lparr> current_gear := current_gear g - 1 \<rparr>)
          \<and> (current_gear g \<noteq> int (length (gear_ratios g)) \<longrightarrow>
               shift_up g = g\<lparr> current_gear := current_gear g + 1 \<rparr>))
       \<and> (current_gear g = 1 \<longrightarrow>
            1 \<le> current_gear (apply_shifts ks g)
          \<and> current_gear (apply_shifts ks g) \<le> int (length (gear_ratios (apply_shifts ks g))))"
proof (intro conjI impI)
  assume one: "current_gear g = 1"
  from assms have "1 \<le> int (length (gear_ratios g))"
    by (cases "gear_ratios g") simp_all
  with one have "1 \<le> current_gear g" "current_gear g \<le> int (length (gear_ratios g))"
    by simp_all
  from apply_shifts_in_range [OF this, of ks]
  show "1 \<le> current_gear (apply_shifts ks g)"
    and "current_gear (apply_shifts ks g) \<le> int (length (gear_ratios (apply_shifts ks g)))"
    by simp_all
qed (auto simp: shift_up_def shift_down_def)

theorem shift_bounds_witness:
  "gear_ratios yaris_gearbox \<noteq> [] \<and> current_gear yaris_gearbox = 1
   \<and> shift_down yaris_gearbox = yaris_gearbox
   \<and> shift_up yaris_gearbox = yaris_gearbox\<lparr> current_gear := current_gear yaris_gearbox + 1 \<rparr>
   \<and> 1 \<le> current_gear (apply_shifts [Up, Up, Down, Up, Up, Up, Up, Up] yaris_gearbox)
   \<and> current_gear (apply_shifts [Up, Up, Down, Up, Up, Up, Up, Up] yaris_gearbox)
        \<le> int (length (gear_ratios
                          (apply_shifts [Up, Up, Down, Up, Up, Up, Up, Up] yaris_gearbox)))"
proof -
  have ne: "gear_ratios yaris_gearbox \<noteq> []"
    and one: "current_gear yaris_gearbox = 1"
    and range: "1 \<le> current_gear yaris_gearbox
       \<and> current_gear yaris_gearbox \<le> int (length (gear_ratios yaris_gearbox))"
    and top: "current_gear yaris_gearbox \<noteq> int (length (gear_ratios yaris_gearbox))"
    by (simp_all add: yaris_gearbox_def)
  from shift_bounds [OF ne, of "[Up, Up, Down, Up, Up, Up, Up, Up]"] ne one range top
  show ?thesis
    by blast
qed

section \<open>Road speed\<close>


lemma py_index_Nil: "py_index [] i = Inl IndexError"
  by (simp add: py_index_def)








section \<open>Construction\<close>

lemma calculate_current_torque_raises:
  "fst (calculate_current_torque s) = Inl e \<longleftrightarrow>
     e = ZeroDivisionError \<and> current_rpm s \<noteq> 0
     \<and> (if current_rpm s \<le> real_of_int (peak_torque_rpm s)
         then peak_torque_rpm s = 0 else max_rpm s = peak_torque_rpm s)"
  by (auto simp: calculate_current_torque_def floor_torque_eq Let_def)

text \<open>
  C9, as stated: an engine with \<open>max_rpm = 0\<close> and \<open>peak_torque_rpm = 0\<close> is
  constructed, and its first torque computation divides by zero; a gearbox with an empty
  ratio list is constructed, and \<^verbatim>\<open>get_speed\<close> on it raises \<^verbatim>\<open>IndexError\<close>.
\<close>

theorem construction_unchecked_counterexample:
  "max_rpm (Engine_init ''M15A-FXE'' ''Toyota'' ''3 Cylinder Engine'' 3 1490 80.5 97.6 14.0
      0 91 67 120 91 ''EFI'' 0 5500 1000) = 0
   \<and> fst (calculate_current_torque
        (Engine_init ''M15A-FXE'' ''Toyota'' ''3 Cylinder Engine'' 3 1490 80.5 97.6 14.0
           0 91 67 120 91 ''EFI'' 0 5500 1000)) = Inl ZeroDivisionError
   \<and> Gearbox_init [] ''195/55R16'' 4.294
        = Inr \<lparr> gear_ratios = [], current_gear = 1,
                tire_radius_meters = 0.2032, final_drive_ratio = 4.294 \<rparr>
   \<and> get_speed \<lparr> gear_ratios = [], current_gear = 1,
                  tire_radius_meters = 0.2032, final_drive_ratio = 4.294 \<rparr> 3000
        = Inl IndexError"
  by (simp add: Engine_init_def calculate_current_torque_def Gearbox_init_def get_speed_def
        py_index_def get_wheel_radius_def int_of_str_def strip_def is_space_def is_digit_def)

text \<open>
  C9, amended. Neither constructor checks \<open>max_rpm\<close>, \<open>peak_torque_rpm\<close> or the ratio
  list. Constructing an engine always succeeds and stores the two values as given;
  constructing a gearbox fails exactly when the tire-size descriptor is malformed, and
  otherwise stores the ratio list as given. A bad value shows only later:
  \<^verbatim>\<open>calculate_current_torque\<close> raises \<^verbatim>\<open>ZeroDivisionError\<close> exactly when
  \<open>current_rpm \<noteq> 0\<close> and either \<open>current_rpm \<le> peak_torque_rpm = 0\<close> or
  \<open>current_rpm > peak_torque_rpm = max_rpm\<close>, and with an empty ratio list
  \<^verbatim>\<open>get_current_ratio\<close> and \<^verbatim>\<open>get_speed\<close> raise \<^verbatim>\<open>IndexError\<close>.
\<close>

theorem construction_unchecked:
  "max_rpm (Engine_init nm manu descr cyl displ bore stroke compr mrpm mhp mkw mtorque ron
      ecs ptrpm phrpm crt) = mrpm
   \<and> peak_torque_rpm (Engine_init nm manu descr cyl displ bore stroke compr mrpm mhp mkw
      mtorque ron ecs ptrpm phrpm crt) = ptrpm
   \<and> (Gearbox_init ratios tire_size fdr = Inr g \<longleftrightarrow>
        (\<exists>r. get_wheel_radius tire_size = Inr r
             \<and> g = \<lparr> gear_ratios = ratios, current_gear = 1,
                     tire_radius_meters = r, final_drive_ratio = fdr \<rparr>))
   \<and> (Gearbox_init ratios tire_size fdr = Inl e \<longleftrightarrow> get_wheel_radius tire_size = Inl e)
   \<and> (fst (calculate_current_torque s) = Inl ZeroDivisionError \<longleftrightarrow>
        current_rpm s \<noteq> 0
        \<and> (if current_rpm s \<le> real_of_int (peak_torque_rpm s)
            then peak_torque_rpm s = 0 else max_rpm s = peak_torque_rpm s))
   \<and> (gear_ratios g' = [] \<longrightarrow>
        get_current_ratio g' = Inl IndexError \<and> get_speed g' engine_rpm = Inl IndexError)"
proof (intro conjI)
  show "fst (calculate_current_torque s) = Inl ZeroDivisionError \<longleftrightarrow>
        current_rpm s \<noteq> 0
        \<and> (if current_rpm s \<le> real_of_int (peak_torque_rpm s)
            then peak_torque_rpm s = 0 else max_rpm s = peak_torque_rpm s)"
    by (simp add: calculate_current_torque_raises)
qed (auto simp: Engine_init_def Gearbox_init_def get_current_ratio_def get_speed_def
       py_index_Nil split: sum.splits)

theorem construction_unchecked_witness:
  "gear_ratios (yaris_gearbox\<lparr> gear_ratios := [] \<rparr>) = []
   \<and> get_current_ratio (yaris_gearbox\<lparr> gear_ratios := [] \<rparr>) = Inl IndexError
   \<and> get_speed (yaris_gearbox\<lparr> gear_ratios := [] \<rparr>) 3000 = Inl IndexError"
  using construction_unchecked [where g' = "yaris_gearbox\<lparr> gear_ratios := [] \<rparr>" and engine_rpm = 3000]
  by simp

section \<open>One call of update_rpm\<close>


lemma clutch_dwell_fields:
  "max_rpm (clutch_dwell now s) = max_rpm s"
  "current_rpm (clutch_dwell now s) = current_rpm s"
  "increase_rate (clutch_dwell now s) = increase_rate s"
  "current_gear_ratio (clutch_dwell now s) = current_gear_ratio s"
  "clutch_response_time (clutch_dwell now s) = clutch_response_time s"
  "peak_torque_rpm (clutch_dwell now s) = peak_torque_rpm s"
  by (simp_all add: clutch_dwell_def Let_def split: option.splits)

lemma adjust_rpm_eq:
  "adjust_rpm target_rpm s =
     (if real_of_int target_rpm > current_rpm s \<and> max_rpm s = 0
      then (Inl ZeroDivisionError, s)
      else (Inr (),
            s\<lparr> current_rpm :=
                  adjusted_rpm (clutched s) (real_of_int (max_rpm s)) (increase_rate s)
                    (real_of_int target_rpm) (current_rpm s) \<rparr>))"
  by (simp add: adjust_rpm_def adjusted_rpm_def Let_def)

lemma calculate_current_torque_eq:
  "calculate_current_torque s =
     (if current_rpm s = 0 then (Inr 0, s)
      else if torque_raises s then (Inl ZeroDivisionError, s)
      else (Inr (torque_curve s), s\<lparr> current_torque_nm := torque_curve s \<rparr>))"
  by (simp add: calculate_current_torque_def floor_torque_def torque_curve_def
        torque_raises_def Let_def)

lemma calculate_current_hp_snd:
  "snd (calculate_current_hp s) =
     (if current_rpm s = 0 then s
      else s\<lparr> current_hp := min (current_torque_nm s * 0.737562 * current_rpm s / 5252)
                                 (real_of_int (max_horsepower s)) \<rparr>)"
  by (simp add: calculate_current_hp_zero calculate_current_hp_nonzero)

lemma update_hp_torque_eq:
  "update_hp_torque s =
     (if current_rpm s = 0 then (Inr (), s)
      else if torque_raises s then (Inl ZeroDivisionError, s)
      else (Inr (),
            s\<lparr> current_torque_nm := torque_curve s,
               current_hp := min (torque_curve s * 0.737562 * current_rpm s / 5252)
                                 (real_of_int (max_horsepower s)) \<rparr>))"
  by (simp add: update_hp_torque_def calculate_current_torque_eq calculate_current_hp_snd)



lemma adjust_rpm_fields:
  "clutched (snd (adjust_rpm t s)) = clutched s"
  "clutched_timestamp (snd (adjust_rpm t s)) = clutched_timestamp s"
  "throttle (snd (adjust_rpm t s)) = throttle s"
  "clutch_response_time (snd (adjust_rpm t s)) = clutch_response_time s"
  "max_rpm (snd (adjust_rpm t s)) = max_rpm s"
  "increase_rate (snd (adjust_rpm t s)) = increase_rate s"
  "current_gear_ratio (snd (adjust_rpm t s)) = current_gear_ratio s"
  by (simp_all add: adjust_rpm_eq)

lemma update_rpm_snd:
  "snd (update_rpm now s) =
     (case current_gear_ratio s of
        None \<Rightarrow> clutch_dwell now s
      | Some ratio \<Rightarrow>
          (case fst (adjust_rpm (py_int (real_of_int (max_rpm s)
                       * throttle (clutch_dwell now s) * ratio)) (clutch_dwell now s)) of
             Inl e \<Rightarrow>
               snd (adjust_rpm (py_int (real_of_int (max_rpm s)
                       * throttle (clutch_dwell now s) * ratio)) (clutch_dwell now s))
           | Inr u \<Rightarrow>
               snd (update_hp_torque (clamp_max
                 (snd (adjust_rpm (py_int (real_of_int (max_rpm s)
                       * throttle (clutch_dwell now s) * ratio)) (clutch_dwell now s)))))))"
  by (simp add: update_rpm_def Let_def clutch_dwell_fields
        split: option.splits prod.splits sum.splits)

lemma update_hp_torque_fields:
  "clutched (snd (update_hp_torque s)) = clutched s"
  "clutched_timestamp (snd (update_hp_torque s)) = clutched_timestamp s"
  "throttle (snd (update_hp_torque s)) = throttle s"
  "clutch_response_time (snd (update_hp_torque s)) = clutch_response_time s"
  "current_rpm (snd (update_hp_torque s)) = current_rpm s"
  "max_rpm (snd (update_hp_torque s)) = max_rpm s"
  "increase_rate (snd (update_hp_torque s)) = increase_rate s"
  "current_gear_ratio (snd (update_hp_torque s)) = current_gear_ratio s"
  by (simp_all add: update_hp_torque_eq)

lemma clamp_max_fields:
  "clutched (clamp_max s) = clutched s"
  "clutched_timestamp (clamp_max s) = clutched_timestamp s"
  "throttle (clamp_max s) = throttle s"
  "clutch_response_time (clamp_max s) = clutch_response_time s"
  "max_rpm (clamp_max s) = max_rpm s"
  "increase_rate (clamp_max s) = increase_rate s"
  "current_gear_ratio (clamp_max s) = current_gear_ratio s"
  "current_rpm (clamp_max s) = min (current_rpm s) (real_of_int (max_rpm s))"
  by (simp_all add: clamp_max_def)

lemma update_rpm_fields:
  "clutched (snd (update_rpm now s)) = clutched (clutch_dwell now s)"
  "clutched_timestamp (snd (update_rpm now s)) = clutched_timestamp (clutch_dwell now s)"
  "throttle (snd (update_rpm now s)) = throttle (clutch_dwell now s)"
  "clutch_response_time (snd (update_rpm now s)) = clutch_response_time s"
  "max_rpm (snd (update_rpm now s)) = max_rpm s"
  "increase_rate (snd (update_rpm now s)) = increase_rate s"
  "current_gear_ratio (snd (update_rpm now s)) = current_gear_ratio s"
  unfolding update_rpm_snd
  by (simp_all add: update_hp_torque_fields clamp_max_fields adjust_rpm_fields
        clutch_dwell_fields split: option.splits sum.splits)








section \<open>The range of current_rpm\<close>





section \<open>The clutch\<close>

text \<open>
  C10. With the clutch flag set and no timestamp, a call of \<^verbatim>\<open>update_rpm\<close> at clock
  reading \<open>now\<close> leaves the flag set and the timestamp at \<open>now\<close>, whatever
  \<open>clutch_response_time\<close> is and whether or not the call raises later on; the next
  call, at \<open>now'\<close>, is the first that can clear the flag, and it does so exactly when
  \<open>now' - now\<close> exceeds \<open>clutch_response_time\<close> milliseconds.
\<close>

theorem clutch_first_call:
  assumes "clutched s" "clutched_timestamp s = None"
  shows "clutched (snd (update_rpm now s))
       \<and> clutched_timestamp (snd (update_rpm now s)) = Some now
       \<and> (clutched (snd (update_rpm now' (snd (update_rpm now s))))
            \<longleftrightarrow> \<not> now' - now > 1000 * clutch_response_time s)"
proof -
  have first: "clutched (snd (update_rpm now s))"
    "clutched_timestamp (snd (update_rpm now s)) = Some now"
    using assms by (simp_all add: update_rpm_fields clutch_dwell_def)
  have "clutch_response_time (snd (update_rpm now s)) = clutch_response_time s"
    by (simp add: update_rpm_fields)
  with first show ?thesis
    by (simp add: update_rpm_fields [of now'] clutch_dwell_def Let_def)
qed

theorem clutch_first_call_witness:
  "clutched (yaris\<lparr> clutched := True, clutch_response_time := 0 \<rparr>)
   \<and> clutched_timestamp (yaris\<lparr> clutched := True, clutch_response_time := 0 \<rparr>) = None
   \<and> clutched (snd (update_rpm 5 (yaris\<lparr> clutched := True, clutch_response_time := 0 \<rparr>)))
   \<and> \<not> clutched (snd (update_rpm 6
           (snd (update_rpm 5 (yaris\<lparr> clutched := True, clutch_response_time := 0 \<rparr>)))))"
  using clutch_first_call [of "yaris\<lparr> clutched := True, clutch_response_time := 0 \<rparr>" 5 6]
  by (simp add: yaris_fields)




section \<open>Ticking from idle\<close>

















end
